theory Spec2Isabelle
  imports Main
begin

section \<open>Python values, dictionaries and exceptions\<close>

text \<open>
  The values that travel between \<^verbatim>\<open>main\<close> (python\_tools/etl.py) and its collaborators:
  \<^verbatim>\<open>None\<close>, booleans, integers, strings, lists and nested JSON objects.
\<close>

datatype pyval =
    PNone
  | PBool bool
  | PInt int
  | PStr string
  | PList "pyval list"
  | PDict "(string \<times> pyval) list"

text \<open>
  The two dictionaries \<^verbatim>\<open>main\<close> inspects (\<^verbatim>\<open>crawl_result\<close> and \<^verbatim>\<open>rewards_json\<close>) are maps from
  string keys to values.
\<close>

type_synonym pydict = "string \<rightharpoonup> pyval"

text \<open>
  \<open>Exception msg\<close> stands for an instance of any class derived from Python's
  \<^verbatim>\<open>Exception\<close> whose \<^verbatim>\<open>str(e)\<close> returns \<open>msg\<close>; \<open>Exception_str_raises e'\<close> for an instance
  of such a class whose \<^verbatim>\<open>str(e)\<close> raises \<open>e'\<close> instead of returning; \<open>BaseException msg\<close> for
  an instance of a class that derives from \<^verbatim>\<open>BaseException\<close> only (\<^verbatim>\<open>KeyboardInterrupt\<close>,
  \<^verbatim>\<open>SystemExit\<close>, \<^verbatim>\<open>asyncio.CancelledError\<close>). The handler \<^verbatim>\<open>except Exception as e\<close> catches the
  first two kinds only, and evaluates \<^verbatim>\<open>str(e)\<close> on what it caught.
\<close>

datatype pyexc = Exception string | Exception_str_raises pyexc | BaseException string

text \<open>
  \<^verbatim>\<open>KeyError(k)\<close>: its \<^verbatim>\<open>str\<close> is the \<^verbatim>\<open>repr\<close> of the key, which for a key without quotes,
  backslashes or non-printing characters (as the four keys \<^verbatim>\<open>main\<close> subscripts are) is the
  key between single quotes.
\<close>

definition KeyError :: "string \<Rightarrow> pyexc" where
  "KeyError k = Exception (CHR 0x27 # k @ [CHR 0x27])"

text \<open>\<^verbatim>\<open>d[k]\<close>: raises \<^verbatim>\<open>KeyError\<close> (an \<^verbatim>\<open>Exception\<close>) when the key is missing.\<close>

definition subscript :: "pydict \<Rightarrow> string \<Rightarrow> pyexc + pyval" where
  "subscript d k = (case d k of None \<Rightarrow> Inl (KeyError k) | Some v \<Rightarrow> Inr v)"

text \<open>\<^verbatim>\<open>d.get(k)\<close>: \<^verbatim>\<open>None\<close> when the key is missing.\<close>

definition dict_get :: "pydict \<Rightarrow> string \<Rightarrow> pyval" where
  "dict_get d k = (case d k of None \<Rightarrow> PNone | Some v \<Rightarrow> v)"

text \<open>\<^verbatim>\<open>k in d\<close>.\<close>

definition contains :: "string \<Rightarrow> pydict \<Rightarrow> bool" where
  "contains k d = (d k \<noteq> None)"

section \<open>The store and the logger\<close>

text \<open>A row written by \<^verbatim>\<open>db.save_card_version\<close>, with the keyword arguments of the call.\<close>

record card_version =
  cv_card_id :: int
  cv_version_name :: string
  cv_hash_val :: pyval
  cv_rewards :: pydict
  cv_raw_content :: pyval

text \<open>
  A row written by \<^verbatim>\<open>db.log_crawl_result(card_id, status, error)\<close>; the third argument
  is \<^verbatim>\<open>None\<close> where the call leaves it out.
\<close>

record crawl_log =
  cl_card_id :: int
  cl_status :: string
  cl_error :: pyval

text \<open>
  What \<^verbatim>\<open>logger.info\<close> and \<^verbatim>\<open>logger.error\<close> emit. The message text is kept symbolic: one
  constructor for each call site of \<^verbatim>\<open>main\<close>, carrying the value the f-string interpolates.
\<close>

datatype log_line =
    INFO_processing_card int
  | INFO_content_not_changed
  | ERROR_crawl_failed pyval
  | INFO_content_changed
  | ERROR_ai_parse_failed pyval
  | INFO_ai_parse_success
  | INFO_etl_completed
  | ERROR_etl_fatal string

record state =
  card_versions :: "card_version list"
  crawl_logs :: "crawl_log list"
  logger :: "log_line list"

definition logger_emit :: "log_line \<Rightarrow> state \<Rightarrow> state" where
  "logger_emit l s = s\<lparr>logger := logger s @ [l]\<rparr>"

section \<open>The collaborators\<close>

text \<open>
  \<^verbatim>\<open>BankCrawler\<close> (crawler/crawler.py), \<^verbatim>\<open>RewardsParser\<close> (ai/parser.py) and \<^verbatim>\<open>DatabaseOps\<close>
  (db/operations.py) are imported by etl.py; their behaviour during one run is a parameter of
  the model. Each call returns a value or raises. The constructors, the two seeding calls,
  the crawler and the parser are taken not to touch the versions and crawl logs. The three
  store operations on versions and crawl logs are defined below; here only whether they
  raise, which may depend on the store and on the row at hand. The \<^verbatim>\<open>await\<close> of line 31 is a
  plain call: a run is sequential.
\<close>

record collaborators =
  DatabaseOps_init :: "pyexc option"
  BankCrawler_init :: "bool \<Rightarrow> pyexc option"
  RewardsParser_init :: "pyexc option"
  get_or_create_bank :: "string \<Rightarrow> string \<Rightarrow> pyexc + int"
  get_or_create_card :: "int \<Rightarrow> string \<Rightarrow> string \<Rightarrow> pyexc + int"
  process_card_url :: "int \<Rightarrow> string \<Rightarrow> pyval \<Rightarrow> pyexc + pydict"
  parse_markdown_to_json :: "pyval \<Rightarrow> pyexc + pydict"
  latest_fault :: "state \<Rightarrow> int \<Rightarrow> pyexc option"
  save_fault :: "state \<Rightarrow> card_version \<Rightarrow> pyexc option"
  log_fault :: "state \<Rightarrow> crawl_log \<Rightarrow> pyexc option"

text \<open>
  Modelled from the spec: \<^verbatim>\<open>DatabaseOps.get_latest_card_version\<close> (db/operations.py is not
  among the sources). Section 3: versions are append-only and the latest version of a target
  is the one with the greatest creation order; section 6: \<^verbatim>\<open>latestFingerprint\<close> returns the
  fingerprint of that version, or is absent. The row is returned whole (\<^verbatim>\<open>main\<close> reads its
  \<^verbatim>\<open>source_content_hash\<close>), and \<^verbatim>\<open>None\<close> when the card has no version.
\<close>

definition get_latest_card_version ::
    "collaborators \<Rightarrow> int \<Rightarrow> state \<Rightarrow> pyexc + card_version option" where
  "get_latest_card_version c cid s =
     (case latest_fault c s cid of
        Some e \<Rightarrow> Inl e
      | None \<Rightarrow>
          (case filter (\<lambda>v. cv_card_id v = cid) (card_versions s) of
             [] \<Rightarrow> Inr None
           | v # vs \<Rightarrow> Inr (Some (last (v # vs)))))"

text \<open>
  Modelled from the spec: \<^verbatim>\<open>DatabaseOps.save_card_version\<close> (db/operations.py is not among the
  sources). Section 6, \<^verbatim>\<open>createVersion\<close>: durably records a new version, or fails; section 3:
  existing versions are never updated or deleted. When it fails is left to \<open>save_fault\<close>;
  a failed call writes nothing.
\<close>

definition save_card_version :: "collaborators \<Rightarrow> card_version \<Rightarrow> state \<Rightarrow> pyexc + state" where
  "save_card_version c v s =
     (case save_fault c s v of
        Some e \<Rightarrow> Inl e
      | None \<Rightarrow> Inr (s\<lparr>card_versions := card_versions s @ [v]\<rparr>))"

text \<open>
  Modelled from the spec: \<^verbatim>\<open>DatabaseOps.log_crawl_result\<close> (db/operations.py is not among the
  sources). Section 6, \<^verbatim>\<open>appendOutcome\<close>; section 3: crawl outcomes are append-only. When it
  fails is left to \<open>log_fault\<close>; a failed call writes nothing.
\<close>

definition log_crawl_result ::
    "collaborators \<Rightarrow> int \<Rightarrow> string \<Rightarrow> pyval \<Rightarrow> state \<Rightarrow> pyexc + state" where
  "log_crawl_result c cid status err s =
     (let r = \<lparr>cl_card_id = cid, cl_status = status, cl_error = err\<rparr> in
      case log_fault c s r of
        Some e \<Rightarrow> Inl e
      | None \<Rightarrow> Inr (s\<lparr>crawl_logs := crawl_logs s @ [r]\<rparr>))"

section \<open>The ETL run\<close>

text \<open>The string literals of \<^verbatim>\<open>main\<close>; the two names are the UTF-8 bytes of the source text.\<close>

definition bank_name :: string where
  "bank_name = [CHR 0xE5, CHR 0x8F, CHR 0xB0, CHR 0xE5, CHR 0x8C, CHR 0x97, CHR 0xE5, CHR 0xAF,
     CHR 0x8C, CHR 0xE9, CHR 0x82, CHR 0xA6, CHR 0xE9, CHR 0x8A, CHR 0x80, CHR 0xE8, CHR 0xA1,
     CHR 0x8C]"

definition card_name :: string where
  "card_name = [CHR 0xE5, CHR 0xAF, CHR 0x8C, CHR 0xE9, CHR 0x82, CHR 0xA6, CHR 0x20, CHR 0x4A,
     CHR 0x20, CHR 0xE5, CHR 0x8D, CHR 0xA1]"

definition target_url :: string where
  "target_url =
     ''https://www.fubon.com/banking/personal/credit_card/all_card/j_card/j_card_rates.htm''"

text \<open>
  The body of the \<^verbatim>\<open>try\<close> statement of \<^verbatim>\<open>main\<close> (lines 19 to 65). The result is the exception
  that left the body, if any, and the state at that point.
\<close>

definition try_block :: "collaborators \<Rightarrow> state \<Rightarrow> pyexc option \<times> state" where
  "try_block c s0 =
     (case get_or_create_bank c bank_name ''012'' of
        Inl e \<Rightarrow> (Some e, s0)
      | Inr bank_id \<Rightarrow>
     (case get_or_create_card c bank_id card_name target_url of
        Inl e \<Rightarrow> (Some e, s0)
      | Inr card_id \<Rightarrow>
     (let s1 = logger_emit (INFO_processing_card card_id) s0 in
      case get_latest_card_version c card_id s1 of
        Inl e \<Rightarrow> (Some e, s1)
      | Inr last_version \<Rightarrow>
     (let last_hash = (case last_version of Some v \<Rightarrow> cv_hash_val v | None \<Rightarrow> PNone) in
      case process_card_url c card_id target_url last_hash of
        Inl e \<Rightarrow> (Some e, s1)
      | Inr crawl_result \<Rightarrow>
     (case subscript crawl_result ''status'' of
        Inl e \<Rightarrow> (Some e, s1)
      | Inr status \<Rightarrow>
          if status = PStr ''NO_CHANGE'' then
            (let s2 = logger_emit INFO_content_not_changed s1 in
             case log_crawl_result c card_id ''NO_CHANGE'' PNone s2 of
               Inl e \<Rightarrow> (Some e, s2)
             | Inr s3 \<Rightarrow> (None, s3))
          else if status = PStr ''FAILED'' then
            (let s2 = logger_emit (ERROR_crawl_failed (dict_get crawl_result ''error'')) s1 in
             case log_crawl_result c card_id ''FAILED'' (dict_get crawl_result ''error'') s2 of
               Inl e \<Rightarrow> (Some e, s2)
             | Inr s3 \<Rightarrow> (None, s3))
          else
            (let s2 = logger_emit INFO_content_changed s1 in
             case subscript crawl_result ''content'' of
               Inl e \<Rightarrow> (Some e, s2)
             | Inr markdown_content \<Rightarrow>
            (case subscript crawl_result ''hash'' of
               Inl e \<Rightarrow> (Some e, s2)
             | Inr current_hash \<Rightarrow>
            (case parse_markdown_to_json c markdown_content of
               Inl e \<Rightarrow> (Some e, s2)
             | Inr rewards_json \<Rightarrow>
                 if contains ''error'' rewards_json then
                   (case subscript rewards_json ''error'' of
                      Inl e \<Rightarrow> (Some e, s2)
                    | Inr err \<Rightarrow>
                   (let s3 = logger_emit (ERROR_ai_parse_failed err) s2 in
                    case log_crawl_result c card_id ''AI_FAILED'' err s3 of
                      Inl e \<Rightarrow> (Some e, s3)
                    | Inr s4 \<Rightarrow> (None, s4)))
                 else
                   (let s3 = logger_emit INFO_ai_parse_success s2 in
                    case save_card_version c
                           \<lparr>cv_card_id = card_id, cv_version_name = ''2026-Q1'',
                            cv_hash_val = current_hash, cv_rewards = rewards_json,
                            cv_raw_content = markdown_content\<rparr> s3 of
                      Inl e \<Rightarrow> (Some e, s3)
                    | Inr s4 \<Rightarrow>
                   (case log_crawl_result c card_id ''SUCCESS'' PNone s4 of
                      Inl e \<Rightarrow> (Some e, s4)
                    | Inr s5 \<Rightarrow> (None, logger_emit INFO_etl_completed s5)))))))))))"

text \<open>
  \<^verbatim>\<open>main\<close>: the three constructors run before the \<^verbatim>\<open>try\<close> statement, so what they raise
  reaches the caller. The handler (lines 67 and 68) catches an \<^verbatim>\<open>Exception\<close>, evaluates
  \<^verbatim>\<open>str(e)\<close> for the f-string, hands the line to \<^verbatim>\<open>logger.error\<close> and returns; when \<^verbatim>\<open>str(e)\<close>
  raises, that exception leaves the handler and \<^verbatim>\<open>main\<close> before anything is logged. The first
  component of the result is the exception that reaches the caller of \<^verbatim>\<open>main\<close>, if any.
\<close>

definition main :: "collaborators \<Rightarrow> state \<Rightarrow> pyexc option \<times> state" where
  "main c s =
     (case DatabaseOps_init c of
        Some e \<Rightarrow> (Some e, s)
      | None \<Rightarrow>
     (case BankCrawler_init c True of
        Some e \<Rightarrow> (Some e, s)
      | None \<Rightarrow>
     (case RewardsParser_init c of
        Some e \<Rightarrow> (Some e, s)
      | None \<Rightarrow>
     (case try_block c s of
        (None, s') \<Rightarrow> (None, s')
      | (Some (Exception msg), s') \<Rightarrow> (None, logger_emit (ERROR_etl_fatal msg) s')
      | (Some (Exception_str_raises e'), s') \<Rightarrow> (Some e', s')
      | (Some (BaseException msg), s') \<Rightarrow> (Some (BaseException msg), s')))))"

section \<open>Runs, stages and counts\<close>

text \<open>The three constructor calls of \<^verbatim>\<open>main\<close> return.\<close>

definition constructed :: "collaborators \<Rightarrow> bool" where
  "constructed c \<longleftrightarrow>
     DatabaseOps_init c = None \<and> BankCrawler_init c True = None \<and> RewardsParser_init c = None"

text \<open>The card a run works on: what the two seeding calls of \<^verbatim>\<open>main\<close> resolve, if they return.\<close>

definition run_target :: "collaborators \<Rightarrow> int option" where
  "run_target c =
     (case get_or_create_bank c bank_name ''012'' of
        Inl e \<Rightarrow> None
      | Inr bank_id \<Rightarrow>
          (case get_or_create_card c bank_id card_name target_url of
             Inl e \<Rightarrow> None
           | Inr card_id \<Rightarrow> Some card_id))"

text \<open>
  The run of \<^verbatim>\<open>main\<close> from state \<open>s\<close> gets as far as line 31 for card \<open>cid\<close>, and the crawler
  returns the dictionary \<open>r\<close> there.
\<close>

definition fetched :: "collaborators \<Rightarrow> state \<Rightarrow> int \<Rightarrow> pydict \<Rightarrow> bool" where
  "fetched c s cid r \<longleftrightarrow>
     constructed c \<and> run_target c = Some cid \<and>
     (case get_latest_card_version c cid (logger_emit (INFO_processing_card cid) s) of
        Inl e \<Rightarrow> False
      | Inr last_version \<Rightarrow>
          process_card_url c cid target_url
            (case last_version of Some v \<Rightarrow> cv_hash_val v | None \<Rightarrow> PNone) = Inr r)"

text \<open>The four outcome kinds \<^verbatim>\<open>main\<close> passes to \<^verbatim>\<open>db.log_crawl_result\<close>.\<close>

definition outcome_kinds :: "string set" where
  "outcome_kinds = {''NO_CHANGE'', ''FAILED'', ''AI_FAILED'', ''SUCCESS''}"

text \<open>The row of line 64, \<^verbatim>\<open>db.log_crawl_result(card_id, "SUCCESS")\<close>.\<close>

definition success_row :: "int \<Rightarrow> crawl_log" where
  "success_row cid = \<lparr>cl_card_id = cid, cl_status = ''SUCCESS'', cl_error = PNone\<rparr>"

text \<open>The row of lines 57 to 63.\<close>

definition version_row :: "int \<Rightarrow> pyval \<Rightarrow> pydict \<Rightarrow> pyval \<Rightarrow> card_version" where
  "version_row cid h p content =
     \<lparr>cv_card_id = cid, cv_version_name = ''2026-Q1'', cv_hash_val = h, cv_rewards = p,
      cv_raw_content = content\<rparr>"

text \<open>Records of one card in the store.\<close>

definition versions_of :: "int \<Rightarrow> state \<Rightarrow> card_version list" where
  "versions_of cid s = filter (\<lambda>v. cv_card_id v = cid) (card_versions s)"

definition outcomes_of :: "int \<Rightarrow> state \<Rightarrow> crawl_log list" where
  "outcomes_of cid s = filter (\<lambda>r. cl_card_id r = cid) (crawl_logs s)"

definition n_versions :: "int \<Rightarrow> state \<Rightarrow> nat" where
  "n_versions cid s = length (versions_of cid s)"


definition n_success :: "int \<Rightarrow> state \<Rightarrow> nat" where
  "n_success cid s = length (filter (\<lambda>r. cl_status r = ''SUCCESS'') (outcomes_of cid s))"

text \<open>
  The hash line 28 of \<^verbatim>\<open>main\<close> reads for card \<open>cid\<close> from a store whose lookup returns:
  the hash of the card's latest version, \<^verbatim>\<open>None\<close> when it has none.
\<close>

definition last_hash_of :: "int \<Rightarrow> state \<Rightarrow> pyval" where
  "last_hash_of cid s =
     (case versions_of cid s of [] \<Rightarrow> PNone | v # vs \<Rightarrow> cv_hash_val (last (v # vs)))"

text \<open>
  Successive invocations of \<^verbatim>\<open>main\<close> on one store, each with the behaviour its collaborators
  show during that invocation.
\<close>

fun runs :: "collaborators list \<Rightarrow> state \<Rightarrow> state" where
  "runs [] s = s"
| "runs (c # cs) s = runs cs (snd (main c s))"



text \<open>
  Modelled from the spec: \<^verbatim>\<open>BankCrawler.process_card_url\<close> (crawler/crawler.py is not among the
  sources). Section 4.1, step 1, and section 6: the fetcher compares the fingerprint of the
  remote content with the last known fingerprint, by equality, and returns UNCHANGED, or
  CHANGED with the content and its fingerprint. The remote content and its fingerprint are
  the first two arguments.
\<close>

definition comparing_fetcher ::
    "pyval \<Rightarrow> pyval \<Rightarrow> int \<Rightarrow> string \<Rightarrow> pyval \<Rightarrow> pyexc + pydict" where
  "comparing_fetcher content fingerprint cid url last_hash =
     (if last_hash = fingerprint then Inr [''status'' \<mapsto> PStr ''NO_CHANGE'']
      else Inr [''status'' \<mapsto> PStr ''CHANGED'', ''content'' \<mapsto> content,
                ''hash'' \<mapsto> fingerprint])"

section \<open>Sample collaborators\<close>

text \<open>
  Collaborators none of whose calls raises: the crawler answers with the dictionary \<open>r\<close>, the
  parser with \<open>p\<close>; bank 12, card 1.
\<close>

definition sample_collaborators :: "pydict \<Rightarrow> pydict \<Rightarrow> collaborators" where
  "sample_collaborators r p =
     \<lparr>DatabaseOps_init = None, BankCrawler_init = (\<lambda>headless. None), RewardsParser_init = None,
      get_or_create_bank = (\<lambda>name code. Inr 12),
      get_or_create_card = (\<lambda>bank_id name url. Inr 1),
      process_card_url = (\<lambda>cid url last_hash. Inr r),
      parse_markdown_to_json = (\<lambda>content. Inr p),
      latest_fault = (\<lambda>s cid. None), save_fault = (\<lambda>s v. None),
      log_fault = (\<lambda>s row. None)\<rparr>"

definition empty_store :: state where
  "empty_store = \<lparr>card_versions = [], crawl_logs = [], logger = []\<rparr>"

definition changed_result :: pydict where
  "changed_result =
     [''status'' \<mapsto> PStr ''CHANGED'', ''content'' \<mapsto> PStr ''# J card'',
      ''hash'' \<mapsto> PStr ''f1'']"

definition sample_payload :: pydict where
  "sample_payload = [''rewards'' \<mapsto> PList [PDict [(''rate'', PInt 3)]]]"


text \<open>The store refuses every crawl log row.\<close>

definition log_failing_collaborators :: collaborators where
  "log_failing_collaborators =
     (sample_collaborators changed_result sample_payload)
       \<lparr>log_fault := (\<lambda>s row. Some (Exception ''connection lost''))\<rparr>"




text \<open>
  The crawler compares hashes; the remote content is \<^verbatim>\<open>"# J card"\<close> with hash \<^verbatim>\<open>"f1"\<close>
  throughout, and the parser answers with \<open>p\<close>.
\<close>

definition comparing_collaborators :: "pydict \<Rightarrow> collaborators" where
  "comparing_collaborators p =
     (sample_collaborators Map.empty p)
       \<lparr>process_card_url := comparing_fetcher (PStr ''# J card'') (PStr ''f1'')\<rparr>"


text \<open>The same collaborators with a store that refuses every crawl log row.\<close>

definition refusing_log :: "collaborators \<Rightarrow> collaborators" where
  "refusing_log c = c\<lparr>log_fault := (\<lambda>s row. Some (Exception ''connection lost''))\<rparr>"

text \<open>The same collaborators with a store that refuses every version row.\<close>

definition refusing_save :: "collaborators \<Rightarrow> collaborators" where
  "refusing_save c = c\<lparr>save_fault := (\<lambda>s v. Some (Exception ''disk full''))\<rparr>"


section \<open>Shared lemmas\<close>

lemmas call_defs = Let_def subscript_def dict_get_def contains_def log_crawl_result_def
  save_card_version_def logger_emit_def

lemmas sample_defs = sample_collaborators_def empty_store_def changed_result_def
  sample_payload_def constructed_def run_target_def get_latest_card_version_def

text \<open>What a run that reached the crawler went through.\<close>

lemma fetchedE:
  assumes "fetched c s cid r"
  obtains bank_id lv where
    "DatabaseOps_init c = None" "BankCrawler_init c True = None" "RewardsParser_init c = None"
    "get_or_create_bank c bank_name ''012'' = Inr bank_id"
    "get_or_create_card c bank_id card_name target_url = Inr cid"
    "get_latest_card_version c cid (logger_emit (INFO_processing_card cid) s) = Inr lv"
    "process_card_url c cid target_url
       (case lv of Some v \<Rightarrow> cv_hash_val v | None \<Rightarrow> PNone) = Inr r"
  using assms unfolding fetched_def constructed_def run_target_def
  by (auto split: sum.splits)

text \<open>The effect of the \<^verbatim>\<open>try\<close> body on the store, by the way it ends.\<close>

lemma try_block_returns:
  assumes "try_block c s = (None, s')"
  shows "\<exists>r. crawl_logs s' = crawl_logs s @ [r] \<and> run_target c = Some (cl_card_id r) \<and>
           cl_status r \<in> outcome_kinds \<and>
           (if cl_status r = ''SUCCESS''
            then \<exists>v. card_versions s' = card_versions s @ [v] \<and> cv_card_id v = cl_card_id r
            else card_versions s' = card_versions s)"
  using assms unfolding try_block_def run_target_def outcome_kinds_def
  by (auto simp: Let_def log_crawl_result_def save_card_version_def logger_emit_def
      split: sum.splits option.splits if_splits)

lemma try_block_raises:
  assumes "try_block c s = (Some e, s')"
  shows "crawl_logs s' = crawl_logs s \<and>
         (card_versions s' = card_versions s \<or>
          (\<exists>v t. card_versions s' = card_versions s @ [v] \<and>
                 log_fault c t (success_row (cv_card_id v)) = Some e))"
  using assms unfolding try_block_def success_row_def
  by (auto simp: Let_def log_crawl_result_def save_card_version_def logger_emit_def
      split: sum.splits option.splits if_splits)

lemma main_not_constructed: "\<not> constructed c \<Longrightarrow> snd (main c s) = s"
  unfolding main_def constructed_def by (auto split: option.splits)

lemma main_store:
  assumes "constructed c"
  shows "card_versions (snd (main c s)) = card_versions (snd (try_block c s)) \<and>
         crawl_logs (snd (main c s)) = crawl_logs (snd (try_block c s))"
  using assms unfolding main_def constructed_def
  by (auto simp: logger_emit_def split: option.splits prod.splits pyexc.splits)

lemma main_result:
  assumes "constructed c"
  shows "main c s =
     (case try_block c s of
        (None, s') \<Rightarrow> (None, s')
      | (Some (Exception msg), s') \<Rightarrow> (None, logger_emit (ERROR_etl_fatal msg) s')
      | (Some (Exception_str_raises e'), s') \<Rightarrow> (Some e', s')
      | (Some (BaseException msg), s') \<Rightarrow> (Some (BaseException msg), s'))"
  using assms unfolding main_def constructed_def by simp

text \<open>A run whose \<^verbatim>\<open>try\<close> body comes down to one store write, or to two.\<close>

lemma main_of_try_block:
  assumes "DatabaseOps_init c = None" "BankCrawler_init c True = None"
    "RewardsParser_init c = None"
  shows "main c s =
     (case try_block c s of
        (None, s') \<Rightarrow> (None, s')
      | (Some (Exception msg), s') \<Rightarrow> (None, logger_emit (ERROR_etl_fatal msg) s')
      | (Some (Exception_str_raises e'), s') \<Rightarrow> (Some e', s')
      | (Some (BaseException msg), s') \<Rightarrow> (Some (BaseException msg), s'))"
  using assms unfolding main_def by simp

lemma main_single_write:
  assumes "DatabaseOps_init c = None" "BankCrawler_init c True = None"
    "RewardsParser_init c = None"
    and "try_block c s =
      (case log_fault c t row of
         Some e \<Rightarrow> (Some e, t)
       | None \<Rightarrow> (None, t\<lparr>crawl_logs := crawl_logs s @ [row]\<rparr>))"
    and "card_versions t = card_versions s" and "crawl_logs t = crawl_logs s"
  shows "card_versions (snd (main c s)) = card_versions s \<and>
         crawl_logs (snd (main c s)) =
           (if log_fault c t row = None then crawl_logs s @ [row] else crawl_logs s) \<and>
         (log_fault c t row = None \<longrightarrow>
            main c s = (None, t\<lparr>crawl_logs := crawl_logs s @ [row]\<rparr>))"
proof (cases "log_fault c t row")
  case None
  with assms show ?thesis by (simp add: main_of_try_block)
next
  case (Some e)
  with assms show ?thesis
    by (cases e) (simp_all add: main_of_try_block logger_emit_def)
qed

lemma main_two_writes:
  assumes "DatabaseOps_init c = None" "BankCrawler_init c True = None"
    "RewardsParser_init c = None"
    and "try_block c s =
      (case save_fault c t v of
         Some e \<Rightarrow> (Some e, t)
       | None \<Rightarrow>
           (case log_fault c (t\<lparr>card_versions := card_versions s @ [v]\<rparr>) row of
              Some e \<Rightarrow> (Some e, t\<lparr>card_versions := card_versions s @ [v]\<rparr>)
            | None \<Rightarrow> (None, t\<lparr>card_versions := card_versions s @ [v],
                                crawl_logs := crawl_logs s @ [row],
                                logger := logger t @ [INFO_etl_completed]\<rparr>)))"
    and "card_versions t = card_versions s" and "crawl_logs t = crawl_logs s"
  shows "card_versions (snd (main c s)) =
           (if save_fault c t v = None then card_versions s @ [v] else card_versions s) \<and>
         crawl_logs (snd (main c s)) =
           (if save_fault c t v = None \<and>
               log_fault c (t\<lparr>card_versions := card_versions s @ [v]\<rparr>) row = None
            then crawl_logs s @ [row] else crawl_logs s) \<and>
         (save_fault c t v = None \<and>
          log_fault c (t\<lparr>card_versions := card_versions s @ [v]\<rparr>) row = None \<longrightarrow>
            main c s = (None, t\<lparr>card_versions := card_versions s @ [v],
                                crawl_logs := crawl_logs s @ [row],
                                logger := logger t @ [INFO_etl_completed]\<rparr>))"
proof (cases "save_fault c t v")
  case (Some e)
  with assms show ?thesis
    by (cases e) (simp_all add: main_of_try_block logger_emit_def)
next
  case None
  show ?thesis
  proof (cases "log_fault c (t\<lparr>card_versions := card_versions s @ [v]\<rparr>) row")
    case None
    with \<open>save_fault c t v = None\<close> assms show ?thesis by (simp add: main_of_try_block)
  next
    case (Some e)
    with \<open>save_fault c t v = None\<close> assms show ?thesis
      by (cases e) (simp_all add: main_of_try_block logger_emit_def)
  qed
qed

text \<open>The four effects one run can have on versions and crawl logs.\<close>

lemma run_store_cases:
  obtains
    (untouched) "card_versions (snd (main c s)) = card_versions s"
      "crawl_logs (snd (main c s)) = crawl_logs s"
      "\<not> (constructed c \<and> fst (try_block c s) = None)"
  | (version_only) v t e where "card_versions (snd (main c s)) = card_versions s @ [v]"
      "crawl_logs (snd (main c s)) = crawl_logs s"
      "log_fault c t (success_row (cv_card_id v)) = Some e"
      "\<not> (constructed c \<and> fst (try_block c s) = None)"
  | (outcome_only) r where "card_versions (snd (main c s)) = card_versions s"
      "crawl_logs (snd (main c s)) = crawl_logs s @ [r]"
      "cl_status r \<in> outcome_kinds" "cl_status r \<noteq> ''SUCCESS''"
      "run_target c = Some (cl_card_id r)" "constructed c" "fst (try_block c s) = None"
  | (committed) r v where "card_versions (snd (main c s)) = card_versions s @ [v]"
      "crawl_logs (snd (main c s)) = crawl_logs s @ [r]"
      "cl_status r = ''SUCCESS''" "cv_card_id v = cl_card_id r"
      "run_target c = Some (cl_card_id r)" "constructed c" "fst (try_block c s) = None"
proof (cases "constructed c")
  case False
  then show ?thesis using untouched by (simp add: main_not_constructed)
next
  case True
  obtain x s' where tb: "try_block c s = (x, s')" by (cases "try_block c s")
  from main_store [OF True, of s] tb
  have ms: "card_versions (snd (main c s)) = card_versions s'"
    "crawl_logs (snd (main c s)) = crawl_logs s'" by simp_all
  show ?thesis
  proof (cases x)
    case None
    with tb try_block_returns [of c s s'] obtain r where r:
      "crawl_logs s' = crawl_logs s @ [r]" "run_target c = Some (cl_card_id r)"
      "cl_status r \<in> outcome_kinds"
      "if cl_status r = ''SUCCESS''
       then \<exists>v. card_versions s' = card_versions s @ [v] \<and> cv_card_id v = cl_card_id r
       else card_versions s' = card_versions s"
      by blast
    show ?thesis
    proof (cases "cl_status r = ''SUCCESS''")
      case True
      with r(4) obtain v where "card_versions s' = card_versions s @ [v]"
        "cv_card_id v = cl_card_id r" by auto
      with r \<open>constructed c\<close> tb None ms True show ?thesis
        using committed [of v r] by simp
    next
      case False
      with r(4) have "card_versions s' = card_versions s" by simp
      with r \<open>constructed c\<close> tb None ms False show ?thesis
        using outcome_only [of r] by simp
    qed
  next
    case (Some e)
    with tb try_block_raises [of c s e s'] have l: "crawl_logs s' = crawl_logs s"
      and v: "card_versions s' = card_versions s \<or>
          (\<exists>v t. card_versions s' = card_versions s @ [v] \<and>
                 log_fault c t (success_row (cv_card_id v)) = Some e)"
      by simp_all
    from v show ?thesis
    proof
      assume "card_versions s' = card_versions s"
      with l ms tb Some show ?thesis using untouched by simp
    next
      assume "\<exists>v t. card_versions s' = card_versions s @ [v] \<and>
                 log_fault c t (success_row (cv_card_id v)) = Some e"
      then obtain v t where "card_versions s' = card_versions s @ [v]"
        "log_fault c t (success_row (cv_card_id v)) = Some e" by blast
      with l ms tb Some show ?thesis using version_only [of v t e] by simp
    qed
  qed
qed

text \<open>Counts over one run, then over a sequence of runs.\<close>

lemma run_success_le:
  "n_success cid (snd (main c s)) + n_versions cid s
     \<le> n_versions cid (snd (main c s)) + n_success cid s"
  by (cases c s rule: run_store_cases)
    (simp_all add: n_versions_def n_success_def versions_of_def outcomes_of_def)

lemma run_success_eq:
  assumes "\<forall>t. log_fault c t (success_row cid) = None"
  shows "n_success cid (snd (main c s)) + n_versions cid s
         = n_versions cid (snd (main c s)) + n_success cid s"
proof (cases c s rule: run_store_cases)
  case (version_only v t e)
  with assms have "cv_card_id v \<noteq> cid" by auto
  with version_only show ?thesis
    by (simp add: n_versions_def n_success_def versions_of_def outcomes_of_def)
qed (simp_all add: n_versions_def n_success_def versions_of_def outcomes_of_def)


lemma runs_success_le:
  "n_success cid (runs cs s) + n_versions cid s \<le> n_versions cid (runs cs s) + n_success cid s"
proof (induction cs arbitrary: s)
  case Nil
  show ?case by simp
next
  case (Cons c cs)
  from Cons.IH [of "snd (main c s)"] run_success_le [of cid c s]
  show ?case by simp
qed

lemma runs_success_eq:
  assumes "\<forall>c\<in>set cs. \<forall>t. log_fault c t (success_row cid) = None"
  shows "n_success cid (runs cs s) + n_versions cid s = n_versions cid (runs cs s) + n_success cid s"
  using assms
proof (induction cs arbitrary: s)
  case Nil
  show ?case by simp
next
  case (Cons c cs)
  from Cons.prems have "\<forall>t. log_fault c t (success_row cid) = None"
    and "\<forall>c\<in>set cs. \<forall>t. log_fault c t (success_row cid) = None" by simp_all
  with Cons.IH [of "snd (main c s)"] run_success_eq [of c cid s]
  show ?case by simp
qed



text \<open>The hash the lookup hands to the crawler.\<close>

lemma get_latest_hash:
  assumes "get_latest_card_version c cid s = Inr lv"
  shows "(case lv of Some v \<Rightarrow> cv_hash_val v | None \<Rightarrow> PNone) = last_hash_of cid s"
  using assms unfolding get_latest_card_version_def last_hash_of_def versions_of_def
  by (auto split: option.splits list.splits)

lemma last_hash_of_logger [simp]: "last_hash_of cid (logger_emit l s) = last_hash_of cid s"
  by (simp add: last_hash_of_def versions_of_def logger_emit_def)

lemma last_hash_of_same:
  "card_versions (s'::state) = card_versions (s::state) \<Longrightarrow>
     last_hash_of cid s' = last_hash_of cid s"
  by (simp add: last_hash_of_def versions_of_def)

lemma last_hash_of_append:
  "card_versions (s'::state) = card_versions (s::state) @ [v] \<Longrightarrow> cv_card_id v = cid \<Longrightarrow>
     last_hash_of cid s' = cv_hash_val v"
  by (cases "versions_of cid s") (simp_all add: last_hash_of_def versions_of_def)

lemma last_hash_of_logger_update [simp]:
  "last_hash_of cid (s\<lparr>logger := l\<rparr>) = last_hash_of cid s"
  by (simp add: last_hash_of_def versions_of_def)

text \<open>What a run that recorded SUCCESS or NO\_CHANGE went through.\<close>

lemma try_block_success:
  assumes "try_block c s = (None, s')" and "crawl_logs s' = crawl_logs s @ [r]"
    and "cl_status r = ''SUCCESS''"
  shows "\<exists>lv cr v. run_target c = Some (cl_card_id r) \<and>
      get_latest_card_version c (cl_card_id r)
        (s\<lparr>logger := logger s @ [INFO_processing_card (cl_card_id r)]\<rparr>) = Inr lv \<and>
      process_card_url c (cl_card_id r) target_url
        (case lv of Some v \<Rightarrow> cv_hash_val v | None \<Rightarrow> PNone) = Inr cr \<and>
      cr ''status'' \<noteq> Some (PStr ''NO_CHANGE'') \<and>
      cr ''hash'' = Some (cv_hash_val v) \<and>
      card_versions s' = card_versions s @ [v] \<and> cv_card_id v = cl_card_id r"
  using assms unfolding try_block_def run_target_def
  by (auto simp: call_defs split: sum.splits option.split_asm if_splits)

lemma try_block_no_change:
  assumes "try_block c s = (None, s')" and "crawl_logs s' = crawl_logs s @ [r]"
    and "cl_status r = ''NO_CHANGE''"
  shows "\<exists>lv cr. run_target c = Some (cl_card_id r) \<and>
      get_latest_card_version c (cl_card_id r)
        (s\<lparr>logger := logger s @ [INFO_processing_card (cl_card_id r)]\<rparr>) = Inr lv \<and>
      process_card_url c (cl_card_id r) target_url
        (case lv of Some v \<Rightarrow> cv_hash_val v | None \<Rightarrow> PNone) = Inr cr \<and>
      cr ''status'' = Some (PStr ''NO_CHANGE'') \<and>
      card_versions s' = card_versions s"
  using assms unfolding try_block_def run_target_def
  by (auto simp: call_defs split: sum.splits option.split_asm if_splits)

lemma try_block_ai_failed:
  assumes "try_block c s = (None, s')" and "crawl_logs s' = crawl_logs s @ [r]"
    and "cl_status r = ''AI_FAILED''"
  shows "\<exists>lv cr. run_target c = Some (cl_card_id r) \<and>
      get_latest_card_version c (cl_card_id r)
        (s\<lparr>logger := logger s @ [INFO_processing_card (cl_card_id r)]\<rparr>) = Inr lv \<and>
      process_card_url c (cl_card_id r) target_url
        (case lv of Some v \<Rightarrow> cv_hash_val v | None \<Rightarrow> PNone) = Inr cr \<and>
      cr ''status'' \<noteq> Some (PStr ''NO_CHANGE'') \<and>
      card_versions s' = card_versions s"
  using assms unfolding try_block_def run_target_def
  by (auto simp: call_defs split: sum.splits option.split_asm if_splits)

text \<open>Two runs against a crawler that compares hashes.\<close>

lemma try_block_comparing_first:
  assumes "process_card_url c = comparing_fetcher content fp"
    and "try_block c s = (None, s')"
    and "crawl_logs s' = crawl_logs s @ [r]"
    and "cl_status r = ''SUCCESS'' \<or> cl_status r = ''NO_CHANGE''"
  shows "run_target c = Some (cl_card_id r) \<and> last_hash_of (cl_card_id r) s' = fp"
  using assms(4)
proof
  assume "cl_status r = ''SUCCESS''"
  from try_block_success [OF assms(2,3) this] obtain lv cr v where f0:
    "get_latest_card_version c (cl_card_id r)
        (s\<lparr>logger := logger s @ [INFO_processing_card (cl_card_id r)]\<rparr>) = Inr lv"
    and f: "run_target c = Some (cl_card_id r)"
    "process_card_url c (cl_card_id r) target_url
        (case lv of Some v \<Rightarrow> cv_hash_val v | None \<Rightarrow> PNone) = Inr cr"
    "cr ''status'' \<noteq> Some (PStr ''NO_CHANGE'')" "cr ''hash'' = Some (cv_hash_val v)"
    "card_versions s' = card_versions s @ [v]" "cv_card_id v = cl_card_id r"
    by (elim exE conjE) (rule that)
  from f(2,3,4) have "cv_hash_val v = fp"
    unfolding assms(1) comparing_fetcher_def by (auto split: if_splits)
  with f(1) last_hash_of_append [OF f(5,6)] show ?thesis by simp
next
  assume "cl_status r = ''NO_CHANGE''"
  from try_block_no_change [OF assms(2,3) this] obtain lv cr where f:
    "run_target c = Some (cl_card_id r)"
    "get_latest_card_version c (cl_card_id r)
        (s\<lparr>logger := logger s @ [INFO_processing_card (cl_card_id r)]\<rparr>) = Inr lv"
    "process_card_url c (cl_card_id r) target_url
        (case lv of Some v \<Rightarrow> cv_hash_val v | None \<Rightarrow> PNone) = Inr cr"
    "cr ''status'' = Some (PStr ''NO_CHANGE'')" "card_versions s' = card_versions s"
    by (elim exE conjE) (rule that)
  from f(3,4) have "(case lv of Some v \<Rightarrow> cv_hash_val v | None \<Rightarrow> PNone) = fp"
    unfolding assms(1) comparing_fetcher_def by (auto split: if_splits)
  with get_latest_hash [OF f(2)] have "last_hash_of (cl_card_id r) s = fp" by simp
  with f(1) last_hash_of_same [OF f(5)] show ?thesis by simp
qed

lemma try_block_comparing_again:
  assumes "process_card_url c = comparing_fetcher content fp"
    and "run_target c = Some cid" and "last_hash_of cid s = fp"
  shows "card_versions (snd (try_block c s)) = card_versions s \<and>
         (crawl_logs (snd (try_block c s)) = crawl_logs s \<or>
          crawl_logs (snd (try_block c s)) = crawl_logs s @
            [\<lparr>cl_card_id = cid, cl_status = ''NO_CHANGE'', cl_error = PNone\<rparr>]) \<and>
         ((\<forall>t. latest_fault c t cid = None) \<and> (\<forall>t row. log_fault c t row = None) \<longrightarrow>
          crawl_logs (snd (try_block c s)) = crawl_logs s @
            [\<lparr>cl_card_id = cid, cl_status = ''NO_CHANGE'', cl_error = PNone\<rparr>])"
proof -
  from assms(2) obtain bank_id where b: "get_or_create_bank c bank_name ''012'' = Inr bank_id"
    "get_or_create_card c bank_id card_name target_url = Inr cid"
    unfolding run_target_def by (auto split: sum.splits)
  show ?thesis
  proof (cases "get_latest_card_version c cid (logger_emit (INFO_processing_card cid) s)")
    case (Inl e)
    then have "latest_fault c (logger_emit (INFO_processing_card cid) s) cid \<noteq> None"
      unfolding get_latest_card_version_def by (cases "latest_fault c (logger_emit (INFO_processing_card cid) s) cid") (simp_all split: list.splits)
    moreover have "try_block c s = (Some e, logger_emit (INFO_processing_card cid) s)"
      unfolding try_block_def using b Inl by (simp add: Let_def)
    ultimately show ?thesis by (auto simp: logger_emit_def)
  next
    case (Inr lv)
    from get_latest_hash [OF Inr] assms(3)
    have h: "(case lv of Some v \<Rightarrow> cv_hash_val v | None \<Rightarrow> PNone) = fp" by simp
    have "try_block c s =
      (case log_fault c
              (s\<lparr>logger := logger s @ [INFO_processing_card cid, INFO_content_not_changed]\<rparr>)
              \<lparr>cl_card_id = cid, cl_status = ''NO_CHANGE'', cl_error = PNone\<rparr> of
         Some e \<Rightarrow> (Some e,
            s\<lparr>logger := logger s @ [INFO_processing_card cid, INFO_content_not_changed]\<rparr>)
       | None \<Rightarrow> (None,
            s\<lparr>crawl_logs := crawl_logs s @
                 [\<lparr>cl_card_id = cid, cl_status = ''NO_CHANGE'', cl_error = PNone\<rparr>],
              logger := logger s @ [INFO_processing_card cid, INFO_content_not_changed]\<rparr>))"
      unfolding try_block_def using b Inr h assms(1)
      by (simp add: Let_def comparing_fetcher_def subscript_def logger_emit_def
          log_crawl_result_def split: option.splits)
    then show ?thesis
      by (simp split: option.splits)
  qed
qed

text \<open>
  After a first run that recorded AI\_FAILED, nothing was saved: the crawler is handed the same
  last hash, and a second run with the same collaborators does not record NO\_CHANGE.
\<close>

lemma second_run_after_ai_failed:
  fixes c s
  defines "s1 \<equiv> snd (main c s)"
  defines "s2 \<equiv> snd (main c s1)"
  assumes "process_card_url c = comparing_fetcher content fp"
    and "crawl_logs s1 = crawl_logs s @ [r]"
    and "cl_status r = ''AI_FAILED''"
  shows "\<forall>r'. crawl_logs s2 = crawl_logs s1 @ [r'] \<longrightarrow> cl_status r' \<noteq> ''NO_CHANGE''"
proof (intro allI impI)
  fix r' assume a: "crawl_logs s2 = crawl_logs s1 @ [r']"
  have "constructed c \<and> fst (try_block c s) = None"
    using assms(4) unfolding s1_def by (cases c s rule: run_store_cases) simp_all
  then have con: "constructed c" and tb: "try_block c s = (None, snd (try_block c s))"
    by (simp_all add: prod_eq_iff)
  from main_result [OF con, of s] tb have "main c s = try_block c s"
    by (cases "try_block c s") simp
  with tb have tb1: "try_block c s = (None, s1)" unfolding s1_def by simp
  from try_block_ai_failed [OF tb1 assms(4,5)] obtain lv cr where f:
    "run_target c = Some (cl_card_id r)"
    "get_latest_card_version c (cl_card_id r)
        (s\<lparr>logger := logger s @ [INFO_processing_card (cl_card_id r)]\<rparr>) = Inr lv"
    "process_card_url c (cl_card_id r) target_url
        (case lv of Some v \<Rightarrow> cv_hash_val v | None \<Rightarrow> PNone) = Inr cr"
    "cr ''status'' \<noteq> Some (PStr ''NO_CHANGE'')" "card_versions s1 = card_versions s"
    by (elim exE conjE) (rule that)
  from f(3,4) have "(case lv of Some v \<Rightarrow> cv_hash_val v | None \<Rightarrow> PNone) \<noteq> fp"
    unfolding assms(3) comparing_fetcher_def by (auto split: if_splits)
  with get_latest_hash [OF f(2)] have "last_hash_of (cl_card_id r) s \<noteq> fp" by simp
  with last_hash_of_same [OF f(5)] have h1: "last_hash_of (cl_card_id r) s1 \<noteq> fp" by simp
  have "constructed c \<and> fst (try_block c s1) = None"
    using a unfolding s2_def by (cases c s1 rule: run_store_cases) simp_all
  then have tb': "try_block c s1 = (None, snd (try_block c s1))"
    by (simp_all add: prod_eq_iff)
  from main_result [OF con, of s1] tb' have "main c s1 = try_block c s1"
    by (cases "try_block c s1") simp
  with tb' have tb2: "try_block c s1 = (None, s2)" unfolding s2_def by simp
  show "cl_status r' \<noteq> ''NO_CHANGE''"
  proof
    assume "cl_status r' = ''NO_CHANGE''"
    from try_block_no_change [OF tb2 a this] obtain lv' cr' where g:
      "run_target c = Some (cl_card_id r')"
      "get_latest_card_version c (cl_card_id r')
        (s1\<lparr>logger := logger s1 @ [INFO_processing_card (cl_card_id r')]\<rparr>) = Inr lv'"
      "process_card_url c (cl_card_id r') target_url
        (case lv' of Some v \<Rightarrow> cv_hash_val v | None \<Rightarrow> PNone) = Inr cr'"
      "cr' ''status'' = Some (PStr ''NO_CHANGE'')"
      by (elim exE conjE) (rule that)
    from g(3,4) have "(case lv' of Some v \<Rightarrow> cv_hash_val v | None \<Rightarrow> PNone) = fp"
      unfolding assms(3) comparing_fetcher_def by (auto split: if_splits)
    with get_latest_hash [OF g(2)] have "last_hash_of (cl_card_id r') s1 = fp" by simp
    moreover from f(1) g(1) have "cl_card_id r' = cl_card_id r" by simp
    ultimately show False using h1 by simp
  qed
qed

section \<open>Versions, outcomes and runs\<close>

text \<open>
  Claim C1, as amended. A run that records SUCCESS has created a version in that run,
  always. A run that creates a version records SUCCESS provided \<^verbatim>\<open>db.log_crawl_result\<close> does
  not raise on the SUCCESS row. So over any sequence of runs the versions of a card grow at
  least as much as its SUCCESS rows, and exactly as much when \<^verbatim>\<open>db.log_crawl_result\<close> never
  raises on a SUCCESS row of that card.
\<close>

theorem versions_match_success:
  "((\<exists>r. crawl_logs (snd (main c s)) = crawl_logs s @ [r] \<and> cl_status r = ''SUCCESS'') \<longrightarrow>
      (\<exists>v. card_versions (snd (main c s)) = card_versions s @ [v])) \<and>
   ((\<forall>t k. log_fault c t (success_row k) = None) \<and>
      card_versions (snd (main c s)) \<noteq> card_versions s \<longrightarrow>
      (\<exists>r. crawl_logs (snd (main c s)) = crawl_logs s @ [r] \<and> cl_status r = ''SUCCESS'')) \<and>
   n_success cid (runs cs s) + n_versions cid s \<le> n_versions cid (runs cs s) + n_success cid s \<and>
   ((\<forall>c\<in>set cs. \<forall>t. log_fault c t (success_row cid) = None) \<longrightarrow>
      n_success cid (runs cs s) + n_versions cid s = n_versions cid (runs cs s) + n_success cid s)"
proof -
  have 1: "(\<exists>r. crawl_logs (snd (main c s)) = crawl_logs s @ [r] \<and> cl_status r = ''SUCCESS'') \<longrightarrow>
      (\<exists>v. card_versions (snd (main c s)) = card_versions s @ [v])"
    by (cases c s rule: run_store_cases) auto
  have 2: "(\<forall>t k. log_fault c t (success_row k) = None) \<and>
      card_versions (snd (main c s)) \<noteq> card_versions s \<longrightarrow>
      (\<exists>r. crawl_logs (snd (main c s)) = crawl_logs s @ [r] \<and> cl_status r = ''SUCCESS'')"
    by (cases c s rule: run_store_cases) auto
  show ?thesis
    using 1 2 runs_success_le [of cid cs s] runs_success_eq [of cs cid s] by blast
qed

text \<open>
  Two runs on an empty store, the first with changed content, the second without change:
  one version, one SUCCESS row.
\<close>

theorem versions_match_success_witness:
  "log_fault (sample_collaborators changed_result sample_payload) = (\<lambda>s row. None) \<and>
   n_versions 1 (runs [sample_collaborators changed_result sample_payload,
                       sample_collaborators [''status'' \<mapsto> PStr ''NO_CHANGE''] Map.empty]
                   empty_store) = 1 \<and>
   n_success 1 (runs [sample_collaborators changed_result sample_payload,
                      sample_collaborators [''status'' \<mapsto> PStr ''NO_CHANGE''] Map.empty]
                   empty_store) = 1"
  using versions_match_success [of "sample_collaborators changed_result sample_payload"
      empty_store 1 "[sample_collaborators changed_result sample_payload,
                      sample_collaborators [''status'' \<mapsto> PStr ''NO_CHANGE''] Map.empty]"]
  by (simp add: main_def try_block_def call_defs sample_defs n_versions_def n_success_def
      versions_of_def outcomes_of_def)

text \<open>
  The claim as stated fails when the store refuses the crawl log row after the version was
  saved: the run leaves one version and no SUCCESS row.
\<close>

theorem version_without_success_counterexample:
  "n_versions 1 (runs [log_failing_collaborators] empty_store) = 1 \<and>
   n_success 1 (runs [log_failing_collaborators] empty_store) = 0"
  by (simp add: main_def try_block_def call_defs sample_defs log_failing_collaborators_def
      n_versions_def n_success_def versions_of_def outcomes_of_def)







text \<open>
  Claim C4, as amended. On the success path (status CHANGED, content and hash present, the
  parser's dictionary without the key \<^verbatim>\<open>error\<close>) the version row is written exactly when
  \<^verbatim>\<open>db.save_card_version\<close> does not raise, and the SUCCESS row exactly when, after that,
  \<^verbatim>\<open>db.log_crawl_result\<close> does not raise either. So both rows are written when neither call
  raises, and the SUCCESS row is never written without the version row; the version row stays
  written when \<^verbatim>\<open>db.log_crawl_result\<close> raises.
\<close>

theorem success_commit_writes:
  fixes c s cid F P C
  defines "s3 \<equiv> s\<lparr>logger := logger s @ [INFO_processing_card cid, INFO_content_changed,
                                          INFO_ai_parse_success]\<rparr>"
  defines "s4 \<equiv> s3\<lparr>card_versions := card_versions s @ [version_row cid F P C]\<rparr>"
  assumes "fetched c s cid r" and "r ''status'' = Some (PStr ''CHANGED'')"
    and "r ''content'' = Some C" and "r ''hash'' = Some F"
    and "parse_markdown_to_json c C = Inr P" and "\<not> contains ''error'' P"
  shows "card_versions (snd (main c s)) =
           (if save_fault c s3 (version_row cid F P C) = None
            then card_versions s @ [version_row cid F P C] else card_versions s) \<and>
         crawl_logs (snd (main c s)) =
           (if save_fault c s3 (version_row cid F P C) = None \<and>
               log_fault c s4 (success_row cid) = None
            then crawl_logs s @ [success_row cid] else crawl_logs s)"
proof -
  from assms(3) obtain bank_id lv where f:
    "DatabaseOps_init c = None" "BankCrawler_init c True = None" "RewardsParser_init c = None"
    "get_or_create_bank c bank_name ''012'' = Inr bank_id"
    "get_or_create_card c bank_id card_name target_url = Inr cid"
    "get_latest_card_version c cid (logger_emit (INFO_processing_card cid) s) = Inr lv"
    "process_card_url c cid target_url
       (case lv of Some v \<Rightarrow> cv_hash_val v | None \<Rightarrow> PNone) = Inr r"
    by (rule fetchedE)
  have 1: "try_block c s =
     (case save_fault c s3 (version_row cid F P C) of
        Some e \<Rightarrow> (Some e, s3)
      | None \<Rightarrow>
          (case log_fault c s4 (success_row cid) of
             Some e \<Rightarrow> (Some e, s4)
           | None \<Rightarrow> (None, s4\<lparr>crawl_logs := crawl_logs s @ [success_row cid],
                                logger := logger s3 @ [INFO_etl_completed]\<rparr>)))"
    unfolding try_block_def s3_def s4_def using f assms(4-)
    by (simp add: call_defs version_row_def success_row_def split: option.splits)
  show ?thesis
    unfolding main_def 1 s3_def s4_def
    by (simp add: f logger_emit_def split: option.splits pyexc.splits)
qed

text \<open>
  With a store that accepts both rows, both are written.
\<close>

theorem success_commit_writes_witness:
  "card_versions (snd (main (sample_collaborators changed_result sample_payload) empty_store)) =
     [version_row 1 (PStr ''f1'') sample_payload (PStr ''# J card'')] \<and>
   crawl_logs (snd (main (sample_collaborators changed_result sample_payload) empty_store)) =
     [success_row 1]"
  using success_commit_writes [of "sample_collaborators changed_result sample_payload"
      empty_store 1 changed_result "PStr ''# J card''" "PStr ''f1''" sample_payload]
  by (simp add: fetched_def sample_defs logger_emit_def contains_def)

text \<open>
  The claim as stated fails when the store refuses the crawl log row: the version is saved,
  no outcome is recorded, and the run returns after the fatal log line.
\<close>

theorem partial_commit_counterexample:
  "main log_failing_collaborators empty_store =
     (None, \<lparr>card_versions = [version_row 1 (PStr ''f1'') sample_payload (PStr ''# J card'')],
             crawl_logs = [],
             logger = [INFO_processing_card 1, INFO_content_changed, INFO_ai_parse_success,
                       ERROR_etl_fatal ''connection lost'']\<rparr>)"
  by (simp add: main_def try_block_def call_defs sample_defs log_failing_collaborators_def
      version_row_def)

section \<open>The four paths of a run\<close>

text \<open>
  Claim C5 (scenario A), as amended. The card has no version yet, the crawler returns status
  CHANGED with content \<open>C1\<close> and hash \<open>F1\<close>, and the parser returns the payload \<open>P1\<close> without the
  key \<^verbatim>\<open>error\<close>. Then the crawler was called with \<^verbatim>\<open>None\<close> as the last hash; the version row
  carrying \<open>F1\<close>, \<open>P1\<close> and \<open>C1\<close> is written, as the card's only version, exactly when
  \<^verbatim>\<open>db.save_card_version\<close> does not raise; and the crawl log row of kind SUCCESS is written
  exactly when, after that, \<^verbatim>\<open>db.log_crawl_result\<close> does not raise either. When neither raises
  the run returns and these two rows are its whole effect on the store.
\<close>

theorem first_version_scenario:
  fixes c s cid F1 P1 C1
  defines "s3 \<equiv> s\<lparr>logger := logger s @ [INFO_processing_card cid, INFO_content_changed,
                                          INFO_ai_parse_success]\<rparr>"
  defines "s4 \<equiv> s3\<lparr>card_versions := card_versions s @ [version_row cid F1 P1 C1]\<rparr>"
  assumes "fetched c s cid r" and "versions_of cid s = []"
    and "r ''status'' = Some (PStr ''CHANGED'')"
    and "r ''content'' = Some C1" and "r ''hash'' = Some F1"
    and "parse_markdown_to_json c C1 = Inr P1" and "P1 ''error'' = None"
  shows "card_versions (snd (main c s)) =
           (if save_fault c s3 (version_row cid F1 P1 C1) = None
            then card_versions s @ [version_row cid F1 P1 C1] else card_versions s) \<and>
         crawl_logs (snd (main c s)) =
           (if save_fault c s3 (version_row cid F1 P1 C1) = None \<and>
               log_fault c s4 (success_row cid) = None
            then crawl_logs s @ [success_row cid] else crawl_logs s) \<and>
         versions_of cid (snd (main c s)) =
           (if save_fault c s3 (version_row cid F1 P1 C1) = None
            then [version_row cid F1 P1 C1] else []) \<and>
         process_card_url c cid target_url PNone = Inr r \<and>
         (save_fault c s3 (version_row cid F1 P1 C1) = None \<and>
          log_fault c s4 (success_row cid) = None \<longrightarrow>
            main c s =
              (None, s\<lparr>card_versions := card_versions s @ [version_row cid F1 P1 C1],
                       crawl_logs := crawl_logs s @ [success_row cid],
                       logger := logger s @ [INFO_processing_card cid, INFO_content_changed,
                                             INFO_ai_parse_success, INFO_etl_completed]\<rparr>))"
proof -
  from assms(3) obtain bank_id lv where f:
    "DatabaseOps_init c = None" "BankCrawler_init c True = None" "RewardsParser_init c = None"
    "get_or_create_bank c bank_name ''012'' = Inr bank_id"
    "get_or_create_card c bank_id card_name target_url = Inr cid"
    "get_latest_card_version c cid (logger_emit (INFO_processing_card cid) s) = Inr lv"
    "process_card_url c cid target_url
       (case lv of Some v \<Rightarrow> cv_hash_val v | None \<Rightarrow> PNone) = Inr r"
    by (rule fetchedE)
  have 1: "try_block c s =
      (case save_fault c s3 (version_row cid F1 P1 C1) of
         Some e \<Rightarrow> (Some e, s3)
       | None \<Rightarrow>
           (case log_fault c (s3\<lparr>card_versions := card_versions s @ [version_row cid F1 P1 C1]\<rparr>)
                   (success_row cid) of
              Some e \<Rightarrow> (Some e, s3\<lparr>card_versions := card_versions s @ [version_row cid F1 P1 C1]\<rparr>)
            | None \<Rightarrow> (None, s3\<lparr>card_versions := card_versions s @ [version_row cid F1 P1 C1],
                                crawl_logs := crawl_logs s @ [success_row cid],
                                logger := logger s3 @ [INFO_etl_completed]\<rparr>)))"
    unfolding try_block_def s3_def using f assms(4-)
    by (simp add: call_defs version_row_def success_row_def split: option.splits)
  have "lv = None"
    using f(6) assms(4) unfolding get_latest_card_version_def versions_of_def
    by (simp add: logger_emit_def split: option.splits)
  with f(7) have 3: "process_card_url c cid target_url PNone = Inr r" by simp
  have v: "versions_of cid (snd (main c s)) =
      filter (\<lambda>v. cv_card_id v = cid) (card_versions (snd (main c s)))"
    by (simp add: versions_of_def)
  from main_two_writes [OF f(1-3) 1] 3 assms(4) show ?thesis
    unfolding v by (simp add: s3_def s4_def versions_of_def version_row_def)
qed

text \<open>
  The scenario on an empty store that accepts both rows.
\<close>

theorem first_version_scenario_witness:
  "main (sample_collaborators changed_result sample_payload) empty_store =
     (None, \<lparr>card_versions = [version_row 1 (PStr ''f1'') sample_payload (PStr ''# J card'')],
             crawl_logs = [success_row 1],
             logger = [INFO_processing_card 1, INFO_content_changed, INFO_ai_parse_success,
                       INFO_etl_completed]\<rparr>)"
  using first_version_scenario [of "sample_collaborators changed_result sample_payload"
      empty_store 1 changed_result "PStr ''# J card''" "PStr ''f1''" sample_payload]
  by (simp add: fetched_def sample_defs logger_emit_def versions_of_def)

text \<open>
  The claim as stated fails when the store refuses the version row: every condition of the
  scenario holds, and the run leaves no version and no crawl log row.
\<close>

theorem first_version_refused_counterexample:
  "fetched (refusing_save (sample_collaborators changed_result sample_payload))
     empty_store 1 changed_result \<and>
   versions_of 1 empty_store = [] \<and>
   parse_markdown_to_json (refusing_save (sample_collaborators changed_result sample_payload))
     (PStr ''# J card'') = Inr sample_payload \<and>
   sample_payload ''error'' = None \<and>
   main (refusing_save (sample_collaborators changed_result sample_payload)) empty_store =
     (None, \<lparr>card_versions = [], crawl_logs = [],
             logger = [INFO_processing_card 1, INFO_content_changed, INFO_ai_parse_success,
                       ERROR_etl_fatal ''disk full'']\<rparr>)"
  by (simp add: main_def try_block_def fetched_def call_defs sample_defs refusing_save_def
      versions_of_def)

text \<open>
  Claim C6 (scenario B), as amended. The crawler returns status NO\_CHANGE. Then no version
  row is written, and the parser is not called: whatever parser the run is given, the result
  is the same. The crawl log row of kind NO\_CHANGE is written exactly when
  \<^verbatim>\<open>db.log_crawl_result\<close> does not raise on it; the run then returns with that row as its whole
  effect on the store. When the write raises, no crawl log row is written.
\<close>

theorem unchanged_records_no_change:
  fixes c s cid
  defines "s2 \<equiv> s\<lparr>logger := logger s @ [INFO_processing_card cid, INFO_content_not_changed]\<rparr>"
  defines "row \<equiv> \<lparr>cl_card_id = cid, cl_status = ''NO_CHANGE'', cl_error = PNone\<rparr>"
  assumes "fetched c s cid r" and "r ''status'' = Some (PStr ''NO_CHANGE'')"
  shows "card_versions (snd (main c s)) = card_versions s \<and>
         crawl_logs (snd (main c s)) =
           (if log_fault c s2 row = None then crawl_logs s @ [row] else crawl_logs s) \<and>
         (log_fault c s2 row = None \<longrightarrow>
            main c s = (None, s2\<lparr>crawl_logs := crawl_logs s @ [row]\<rparr>)) \<and>
         (\<forall>p. main (c\<lparr>parse_markdown_to_json := p\<rparr>) s = main c s)"
proof -
  from assms(3) obtain bank_id lv where f:
    "DatabaseOps_init c = None" "BankCrawler_init c True = None" "RewardsParser_init c = None"
    "get_or_create_bank c bank_name ''012'' = Inr bank_id"
    "get_or_create_card c bank_id card_name target_url = Inr cid"
    "get_latest_card_version c cid (logger_emit (INFO_processing_card cid) s) = Inr lv"
    "process_card_url c cid target_url
       (case lv of Some v \<Rightarrow> cv_hash_val v | None \<Rightarrow> PNone) = Inr r"
    by (rule fetchedE)
  have 1: "try_block c s =
     (case log_fault c s2 row of
        Some e \<Rightarrow> (Some e, s2)
      | None \<Rightarrow> (None, s2\<lparr>crawl_logs := crawl_logs s @ [row]\<rparr>))"
    unfolding try_block_def s2_def row_def using f assms(4)
    by (simp add: call_defs split: option.splits)
  have 2: "try_block (c\<lparr>parse_markdown_to_json := p\<rparr>) s = try_block c s" for p
    unfolding 1 unfolding try_block_def s2_def row_def using f assms(4)
    by (simp add: call_defs get_latest_card_version_def split: option.splits)
  have 3: "main (c\<lparr>parse_markdown_to_json := p\<rparr>) s = main c s" for p
    unfolding main_def by (simp add: f 2)
  from main_single_write [OF f(1-3) 1] 3 show ?thesis
    by (simp add: s2_def)
qed

text \<open>
  The scenario on an empty store that accepts the row.
\<close>

theorem unchanged_records_no_change_witness:
  "main (sample_collaborators [''status'' \<mapsto> PStr ''NO_CHANGE''] Map.empty) empty_store =
     (None, \<lparr>card_versions = [],
             crawl_logs = [\<lparr>cl_card_id = 1, cl_status = ''NO_CHANGE'', cl_error = PNone\<rparr>],
             logger = [INFO_processing_card 1, INFO_content_not_changed]\<rparr>)"
  using unchanged_records_no_change [of
      "sample_collaborators [''status'' \<mapsto> PStr ''NO_CHANGE''] Map.empty"
      empty_store 1 "[''status'' \<mapsto> PStr ''NO_CHANGE'']"]
  by (simp add: fetched_def sample_defs logger_emit_def)

text \<open>
  The claim as stated fails when the store refuses the row of line 35: the fetch result is
  NO\_CHANGE, and the run ends with the fatal log line and no crawl log row.
\<close>

theorem unchanged_write_refused_counterexample:
  "fetched (refusing_log (sample_collaborators [''status'' \<mapsto> PStr ''NO_CHANGE''] Map.empty))
     empty_store 1 [''status'' \<mapsto> PStr ''NO_CHANGE''] \<and>
   main (refusing_log (sample_collaborators [''status'' \<mapsto> PStr ''NO_CHANGE''] Map.empty))
     empty_store =
     (None, \<lparr>card_versions = [], crawl_logs = [],
             logger = [INFO_processing_card 1, INFO_content_not_changed,
                       ERROR_etl_fatal ''connection lost'']\<rparr>)"
  by (simp add: main_def try_block_def fetched_def call_defs sample_defs refusing_log_def)

text \<open>
  Claim C7 (scenario C), as amended. The crawler returns status FAILED with the detail \<open>D\<close>
  under the key \<^verbatim>\<open>error\<close>. Then no version row is written, and the parser is not called:
  whatever parser the run is given, the result is the same. The crawl log row of kind FAILED
  carrying \<open>D\<close> is written exactly when \<^verbatim>\<open>db.log_crawl_result\<close> does not raise on it; the run
  then returns with that row as its whole effect on the store. When the write raises, no
  crawl log row is written.
\<close>

theorem fetch_failed_records_failed:
  fixes c s cid D
  defines "s2 \<equiv> s\<lparr>logger := logger s @ [INFO_processing_card cid, ERROR_crawl_failed D]\<rparr>"
  defines "row \<equiv> \<lparr>cl_card_id = cid, cl_status = ''FAILED'', cl_error = D\<rparr>"
  assumes "fetched c s cid r" and "r ''status'' = Some (PStr ''FAILED'')"
    and "r ''error'' = Some D"
  shows "card_versions (snd (main c s)) = card_versions s \<and>
         crawl_logs (snd (main c s)) =
           (if log_fault c s2 row = None then crawl_logs s @ [row] else crawl_logs s) \<and>
         (log_fault c s2 row = None \<longrightarrow>
            main c s = (None, s2\<lparr>crawl_logs := crawl_logs s @ [row]\<rparr>)) \<and>
         (\<forall>p. main (c\<lparr>parse_markdown_to_json := p\<rparr>) s = main c s)"
proof -
  from assms(3) obtain bank_id lv where f:
    "DatabaseOps_init c = None" "BankCrawler_init c True = None" "RewardsParser_init c = None"
    "get_or_create_bank c bank_name ''012'' = Inr bank_id"
    "get_or_create_card c bank_id card_name target_url = Inr cid"
    "get_latest_card_version c cid (logger_emit (INFO_processing_card cid) s) = Inr lv"
    "process_card_url c cid target_url
       (case lv of Some v \<Rightarrow> cv_hash_val v | None \<Rightarrow> PNone) = Inr r"
    by (rule fetchedE)
  have 1: "try_block c s =
     (case log_fault c s2 row of
        Some e \<Rightarrow> (Some e, s2)
      | None \<Rightarrow> (None, s2\<lparr>crawl_logs := crawl_logs s @ [row]\<rparr>))"
    unfolding try_block_def s2_def row_def using f assms(4,5)
    by (simp add: call_defs split: option.splits)
  have 2: "try_block (c\<lparr>parse_markdown_to_json := p\<rparr>) s = try_block c s" for p
    unfolding 1 unfolding try_block_def s2_def row_def using f assms(4,5)
    by (simp add: call_defs get_latest_card_version_def split: option.splits)
  have 3: "main (c\<lparr>parse_markdown_to_json := p\<rparr>) s = main c s" for p
    unfolding main_def by (simp add: f 2)
  from main_single_write [OF f(1-3) 1] 3 show ?thesis
    by (simp add: s2_def)
qed

text \<open>
  The scenario on an empty store that accepts the row, with the detail \<^verbatim>\<open>"timeout"\<close>.
\<close>

theorem fetch_failed_records_failed_witness:
  "main (sample_collaborators [''status'' \<mapsto> PStr ''FAILED'', ''error'' \<mapsto> PStr ''timeout'']
           Map.empty) empty_store =
     (None, \<lparr>card_versions = [],
             crawl_logs = [\<lparr>cl_card_id = 1, cl_status = ''FAILED'', cl_error = PStr ''timeout''\<rparr>],
             logger = [INFO_processing_card 1, ERROR_crawl_failed (PStr ''timeout'')]\<rparr>)"
  using fetch_failed_records_failed [of
      "sample_collaborators [''status'' \<mapsto> PStr ''FAILED'', ''error'' \<mapsto> PStr ''timeout''] Map.empty"
      empty_store 1 "[''status'' \<mapsto> PStr ''FAILED'', ''error'' \<mapsto> PStr ''timeout'']"
      "PStr ''timeout''"]
  by (simp add: fetched_def sample_defs logger_emit_def)

text \<open>
  The claim as stated fails when the store refuses the row of line 40: the fetch result is
  FAILED with the detail \<^verbatim>\<open>"timeout"\<close>, and the run ends with the fatal log line and no crawl
  log row.
\<close>

theorem failed_write_refused_counterexample:
  "fetched (refusing_log (sample_collaborators
       [''status'' \<mapsto> PStr ''FAILED'', ''error'' \<mapsto> PStr ''timeout''] Map.empty))
     empty_store 1 [''status'' \<mapsto> PStr ''FAILED'', ''error'' \<mapsto> PStr ''timeout''] \<and>
   main (refusing_log (sample_collaborators
       [''status'' \<mapsto> PStr ''FAILED'', ''error'' \<mapsto> PStr ''timeout''] Map.empty))
     empty_store =
     (None, \<lparr>card_versions = [], crawl_logs = [],
             logger = [INFO_processing_card 1, ERROR_crawl_failed (PStr ''timeout''),
                       ERROR_etl_fatal ''connection lost'']\<rparr>)"
  by (simp add: main_def try_block_def fetched_def call_defs sample_defs refusing_log_def)

text \<open>
  Claim C8 (scenario D), as amended. The crawler returns status CHANGED with content and hash,
  and the parser returns a dictionary with the detail \<open>D\<close> under the key \<^verbatim>\<open>error\<close>. Then no
  version row is written. The crawl log row of kind AI\_FAILED carrying \<open>D\<close> is written
  exactly when \<^verbatim>\<open>db.log_crawl_result\<close> does not raise on it; the run then returns with that
  row as its whole effect on the store, so the fetched content and hash reach no row. When the
  write raises, no crawl log row is written.
\<close>

theorem extraction_failure_records_ai_failed:
  fixes c s cid D
  defines "s3 \<equiv> s\<lparr>logger := logger s @ [INFO_processing_card cid, INFO_content_changed,
                                          ERROR_ai_parse_failed D]\<rparr>"
  defines "row \<equiv> \<lparr>cl_card_id = cid, cl_status = ''AI_FAILED'', cl_error = D\<rparr>"
  assumes "fetched c s cid r" and "r ''status'' = Some (PStr ''CHANGED'')"
    and "r ''content'' = Some C" and "r ''hash'' = Some F"
    and "parse_markdown_to_json c C = Inr P" and "P ''error'' = Some D"
  shows "card_versions (snd (main c s)) = card_versions s \<and>
         crawl_logs (snd (main c s)) =
           (if log_fault c s3 row = None then crawl_logs s @ [row] else crawl_logs s) \<and>
         (log_fault c s3 row = None \<longrightarrow>
            main c s = (None, s3\<lparr>crawl_logs := crawl_logs s @ [row]\<rparr>))"
proof -
  from assms(3) obtain bank_id lv where f:
    "DatabaseOps_init c = None" "BankCrawler_init c True = None" "RewardsParser_init c = None"
    "get_or_create_bank c bank_name ''012'' = Inr bank_id"
    "get_or_create_card c bank_id card_name target_url = Inr cid"
    "get_latest_card_version c cid (logger_emit (INFO_processing_card cid) s) = Inr lv"
    "process_card_url c cid target_url
       (case lv of Some v \<Rightarrow> cv_hash_val v | None \<Rightarrow> PNone) = Inr r"
    by (rule fetchedE)
  have 1: "try_block c s =
     (case log_fault c s3 row of
        Some e \<Rightarrow> (Some e, s3)
      | None \<Rightarrow> (None, s3\<lparr>crawl_logs := crawl_logs s @ [row]\<rparr>))"
    unfolding try_block_def s3_def row_def using f assms(4-)
    by (simp add: call_defs split: option.splits)
  from main_single_write [OF f(1-3) 1] show ?thesis
    by (simp add: s3_def)
qed

text \<open>
  The scenario on an empty store that accepts the row, with the detail
  \<^verbatim>\<open>"malformed response"\<close>.
\<close>

theorem extraction_failure_records_ai_failed_witness:
  "main (sample_collaborators changed_result [''error'' \<mapsto> PStr ''malformed response''])
       empty_store =
     (None, \<lparr>card_versions = [],
             crawl_logs = [\<lparr>cl_card_id = 1, cl_status = ''AI_FAILED'',
                            cl_error = PStr ''malformed response''\<rparr>],
             logger = [INFO_processing_card 1, INFO_content_changed,
                       ERROR_ai_parse_failed (PStr ''malformed response'')]\<rparr>)"
  using extraction_failure_records_ai_failed [of
      "sample_collaborators changed_result [''error'' \<mapsto> PStr ''malformed response'']"
      empty_store 1 changed_result "PStr ''# J card''" "PStr ''f1''"
      "[''error'' \<mapsto> PStr ''malformed response'']" "PStr ''malformed response''"]
  by (simp add: fetched_def sample_defs logger_emit_def)

text \<open>
  The claim as stated fails when the store refuses the row of line 52: the extraction failed
  with the detail \<^verbatim>\<open>"malformed response"\<close>, and the run ends with the fatal log line and no
  crawl log row.
\<close>

theorem ai_failed_write_refused_counterexample:
  "fetched (refusing_log (sample_collaborators changed_result
       [''error'' \<mapsto> PStr ''malformed response''])) empty_store 1 changed_result \<and>
   main (refusing_log (sample_collaborators changed_result
       [''error'' \<mapsto> PStr ''malformed response''])) empty_store =
     (None, \<lparr>card_versions = [], crawl_logs = [],
             logger = [INFO_processing_card 1, INFO_content_changed,
                       ERROR_ai_parse_failed (PStr ''malformed response''),
                       ERROR_etl_fatal ''connection lost'']\<rparr>)"
  by (simp add: main_def try_block_def fetched_def call_defs sample_defs refusing_log_def)

section \<open>Running twice on the same content\<close>

text \<open>
  Claim C9, as amended. Two runs in succession with the same collaborators, the crawler
  comparing the hash of the unchanged remote content with the last hash it is given. If the
  first run recorded SUCCESS or NO\_CHANGE, the second run creates no version and records
  nothing but NO\_CHANGE: exactly one NO\_CHANGE row when the lookup and the crawl log write
  do not raise. So identical content never yields two SUCCESS rows.
\<close>

theorem rerun_on_same_content:
  fixes c s
  defines "s1 \<equiv> snd (main c s)"
  defines "s2 \<equiv> snd (main c s1)"
  assumes "process_card_url c = comparing_fetcher content fp"
    and "crawl_logs s1 = crawl_logs s @ [r]"
    and "cl_status r = ''SUCCESS'' \<or> cl_status r = ''NO_CHANGE''"
  shows "card_versions s2 = card_versions s1 \<and>
         (crawl_logs s2 = crawl_logs s1 \<or>
          crawl_logs s2 = crawl_logs s1 @
            [\<lparr>cl_card_id = cl_card_id r, cl_status = ''NO_CHANGE'', cl_error = PNone\<rparr>]) \<and>
         ((\<forall>t. latest_fault c t (cl_card_id r) = None) \<and> (\<forall>t row. log_fault c t row = None) \<longrightarrow>
          crawl_logs s2 = crawl_logs s1 @
            [\<lparr>cl_card_id = cl_card_id r, cl_status = ''NO_CHANGE'', cl_error = PNone\<rparr>])"
proof -
  have "constructed c \<and> fst (try_block c s) = None"
    using assms(4) unfolding s1_def by (cases c s rule: run_store_cases) simp_all
  then have con: "constructed c" and tb: "try_block c s = (None, snd (try_block c s))"
    by (simp_all add: prod_eq_iff)
  from main_result [OF con, of s] tb have "main c s = try_block c s"
    by (cases "try_block c s") simp
  with tb have tb1: "try_block c s = (None, s1)" unfolding s1_def by simp
  from try_block_comparing_first [OF assms(3) tb1 assms(4,5)]
  have t: "run_target c = Some (cl_card_id r)" and h: "last_hash_of (cl_card_id r) s1 = fp"
    by simp_all
  from try_block_comparing_again [OF assms(3) t h] main_store [OF con, of s1]
  show ?thesis unfolding s2_def by simp
qed

text \<open>
  On an empty store: SUCCESS, then NO\_CHANGE, and one version.
\<close>

theorem rerun_on_same_content_witness:
  "crawl_logs (snd (main (comparing_collaborators sample_payload) empty_store)) = [success_row 1] \<and>
   crawl_logs (snd (main (comparing_collaborators sample_payload)
      (snd (main (comparing_collaborators sample_payload) empty_store)))) =
     [success_row 1, \<lparr>cl_card_id = 1, cl_status = ''NO_CHANGE'', cl_error = PNone\<rparr>] \<and>
   n_versions 1 (snd (main (comparing_collaborators sample_payload)
      (snd (main (comparing_collaborators sample_payload) empty_store)))) = 1"
proof -
  have 1: "snd (main (comparing_collaborators sample_payload) empty_store) =
      \<lparr>card_versions = [version_row 1 (PStr ''f1'') sample_payload (PStr ''# J card'')],
       crawl_logs = [success_row 1],
       logger = [INFO_processing_card 1, INFO_content_changed, INFO_ai_parse_success,
                 INFO_etl_completed]\<rparr>"
    by (simp add: main_def try_block_def call_defs sample_defs comparing_collaborators_def
        comparing_fetcher_def version_row_def success_row_def)
  show ?thesis
    using rerun_on_same_content [of "comparing_collaborators sample_payload"
        "PStr ''# J card''" "PStr ''f1''" empty_store "success_row 1"]
    unfolding 1
    by (simp add: comparing_collaborators_def sample_collaborators_def empty_store_def
        success_row_def n_versions_def versions_of_def version_row_def)
qed

text \<open>
  The claim as stated fails after a first run that ended AI\_FAILED: nothing was saved, the
  crawler reports CHANGED again, and the second run ends AI\_FAILED, not NO\_CHANGE.
\<close>

theorem rerun_after_ai_failed_counterexample:
  "map cl_status (crawl_logs (runs
      [comparing_collaborators [''error'' \<mapsto> PStr ''malformed response''],
       comparing_collaborators [''error'' \<mapsto> PStr ''malformed response'']] empty_store)) =
     [''AI_FAILED'', ''AI_FAILED'']"
  by (simp add: main_def try_block_def call_defs sample_defs comparing_collaborators_def
      comparing_fetcher_def)

section \<open>The key that marks an extraction failure\<close>




end
